theory Spec2Isabelle
  imports Complex_Main
begin

section \<open>Dates and the overdue check (util/time.ts)\<close>

text \<open>
  A JavaScript \<open>Date\<close> holds a time value: an integral number of milliseconds since the
  epoch, in UTC, or NaN for an invalid date (\<open>new Date(s)\<close> on a string that is no date).
  \<open>getTime()\<close> returns that number; NaN is the value \<open>None\<close>. The range limit of time values
  is not modelled.
\<close>

datatype jsdate = Instant int | InvalidDate

fun getTime :: "jsdate \<Rightarrow> int option" where
  "getTime (Instant t) = Some t"
| "getTime InvalidDate = None"

text \<open>The operator \<open><=\<close> on two numbers either of which may be NaN: false when one is.\<close>

fun num_le :: "int option \<Rightarrow> int option \<Rightarrow> bool" where
  "num_le (Some a) (Some b) = (a \<le> b)"
| "num_le _ _ = False"

definition isOverdue :: "jsdate \<Rightarrow> jsdate \<Rightarrow> bool" where
  "isOverdue notBefore now = num_le (getTime notBefore) (getTime now)"

text \<open>
  The local zone of the process is a parameter: the function \<open>LocalTZA(t, isUTC)\<close> of
  ECMA-262, the offset of local time from UTC in milliseconds, asked at a UTC time value
  (\<open>True\<close>) or at a local time value (\<open>False\<close>). Where the offset of a zone changes, a local
  time is skipped or repeated, and the platform chooses what the function returns there
  (ECMA-262 asks for the offset before the change). \<open>LocalTime\<close> and \<open>UTC\<close> are the two
  conversions of ECMA-262.
\<close>

type_synonym zone = "int \<Rightarrow> bool \<Rightarrow> int"

definition LocalTime :: "zone \<Rightarrow> int \<Rightarrow> int" where
  "LocalTime tz t = t + tz t True"

definition UTC :: "zone \<Rightarrow> int \<Rightarrow> int" where
  "UTC tz t = t - tz t False"

definition msPerDay :: int where
  "msPerDay = 86400000"

text \<open>
  \<open>Day\<close>, \<open>HourFromTime\<close>, \<open>MinFromTime\<close>, \<open>SecFromTime\<close> and \<open>msFromTime\<close> of ECMA-262, of a time
  value; the getters of a \<open>Date\<close> read them off the local time value.
\<close>

definition dayNumber :: "int \<Rightarrow> int" where
  "dayNumber t = t div msPerDay"





text \<open>
  \<open>setHours(h, m, s, ms)\<close>: the local day of the date, the given time within it (the
  arguments may overflow into other days), taken back to UTC. \<open>setDate(getDate() + 1)\<close>:
  the date after the local date, which is the local time value plus one day, taken back to
  UTC.
\<close>

definition setHours :: "zone \<Rightarrow> jsdate \<Rightarrow> int \<Rightarrow> int \<Rightarrow> int \<Rightarrow> int \<Rightarrow> jsdate" where
  "setHours tz d h m s ms =
     (case d of
        InvalidDate \<Rightarrow> InvalidDate
      | Instant t \<Rightarrow>
          Instant (UTC tz (dayNumber (LocalTime tz t) * msPerDay
                           + h * 3600000 + m * 60000 + s * 1000 + ms)))"

definition setDate_next :: "zone \<Rightarrow> jsdate \<Rightarrow> jsdate" where
  "setDate_next tz d =
     (case d of
        InvalidDate \<Rightarrow> InvalidDate
      | Instant t \<Rightarrow> Instant (UTC tz (LocalTime tz t + msPerDay)))"














section \<open>The queue store (queue/QueueStore)\<close>

text \<open>
  The field \<open>id\<close> of the source is \<open>item_id\<close>. \<open>targetTerminalName\<close> is the routing hint that
  the terminal-injecting processor reads from an item; the interface of the store declares
  no such field, and its type here is that of the parameter \<open>hint?: string\<close> of
  \<open>findClaudeTerminal\<close>, to which the processor hands it.
\<close>

record QueueItem =
  item_id :: string
  createdAt :: string
  notBefore :: string
  promptText :: string
  workspaceFolder :: string
  processed :: bool
  targetTerminalName :: "string option"

text \<open>
  The calls that the program makes to its surroundings: lines of the log, messages, calls on
  terminals, on the file systems, on the Memento that holds the store, on the editor, and
  the firing of the change event.
\<close>

datatype event =
    LogTick nat nat
  | LogProcessing nat
  | LogSendingToExisting string
  | LogCreatingSession
  | LogDelivered string
  | LogDeliveredFile string
  | LogNoWorkspaceFolder string
  | LogErrorDelivering string string
  | LogErrorForceDelivering string string
  | TerminalShow string
  | TerminalSendText string string bool
  | WriteFileSync string string
  | CreateTerminal string string
  | MementoUpdate "QueueItem list"
  | Stat string
  | CreateDirectory string
  | WriteFile string string
  | ShowErrorMessage string string
  | ShowErrorMessageForce string string
  | ShowInformationMessage string
  | ShowFileCreated string
  | ShowWarningMessage string
  | OpenTextDocument string
  | ShowTextDocument string
  | RevealInExplorer string
  | Fire

text \<open>
  The mutable surroundings: the array stored under \<open>promptQueue.items\<close> in the Memento, the
  names of the open terminals (\<open>vscode.window.terminals\<close>), the active terminal, the paths
  that exist in the workspace file system (each with whether it is a directory, the latest
  entry of a path first), and the trace of the calls made so far that returned.
\<close>

record world =
  items :: "QueueItem list"
  terminals :: "string list"
  activeTerminal :: "string option"
  files :: "(string \<times> bool) list"
  trace :: "event list"

text \<open>
  What a tick reads and does not change: the clock, the local zone, the \<open>Date\<close> constructor
  on strings, the workspace folders, the home and temporary directories, the two settings
  \<open>promptQueue.outputDir\<close> and \<open>promptQueue.filenameTemplate\<close>, the button that the user picks
  on the message about a created file (by the path shown; \<open>None\<close> when the message is
  dismissed), and which calls throw: \<open>fails e c\<close> is \<open>Some err\<close> when the call \<open>c\<close> throws
  \<open>err\<close>, \<open>None\<close> when it returns.
\<close>

record env =
  now :: int
  zone :: zone
  parseDate :: "string \<Rightarrow> jsdate"
  workspaceFolders :: "string list"
  homedir :: string
  tmpdir :: string
  outputDir :: string
  filenameTemplate :: string
  chosenAction :: "string \<Rightarrow> string option"
  fails :: "event \<Rightarrow> string option"

definition emit :: "event list \<Rightarrow> world \<Rightarrow> world" where
  "emit es w = w\<lparr>trace := trace w @ es\<rparr>"

definition getAll :: "world \<Rightarrow> QueueItem list" where
  "getAll w = items w"

definition getPending :: "world \<Rightarrow> QueueItem list" where
  "getPending w = filter (\<lambda>i. \<not> processed i) (getAll w)"

definition add :: "QueueItem \<Rightarrow> world \<Rightarrow> world" where
  "add item w = w\<lparr>items := getAll w @ [item]\<rparr>"

definition markProcessed :: "string \<Rightarrow> world \<Rightarrow> world" where
  "markProcessed x w =
     w\<lparr>items := map (\<lambda>i. if item_id i = x then i\<lparr>processed := True\<rparr> else i) (getAll w)\<rparr>"

definition remove :: "string \<Rightarrow> world \<Rightarrow> world" where
  "remove x w = w\<lparr>items := filter (\<lambda>i. item_id i \<noteq> x) (getAll w)\<rparr>"

definition purgeProcessed :: "world \<Rightarrow> world" where
  "purgeProcessed w = w\<lparr>items := filter (\<lambda>i. \<not> processed i) (getAll w)\<rparr>"

definition clear :: "world \<Rightarrow> world" where
  "clear w = w\<lparr>items := []\<rparr>"


section \<open>Calls that may throw\<close>

text \<open>
  A call that returns is written to the trace and changes the surroundings: \<open>show\<close> makes
  the terminal the active one, \<open>createTerminal\<close> appends a terminal, the update of the
  Memento replaces the stored array, \<open>createDirectory\<close> and \<open>writeFile\<close> make the path exist.
\<close>

definition perform :: "event \<Rightarrow> world \<Rightarrow> world" where
  "perform c w =
     emit [c]
       (case c of
          TerminalShow t \<Rightarrow> w\<lparr>activeTerminal := Some t\<rparr>
        | CreateTerminal n cwd \<Rightarrow> w\<lparr>terminals := terminals w @ [n]\<rparr>
        | MementoUpdate v \<Rightarrow> w\<lparr>items := v\<rparr>
        | CreateDirectory p \<Rightarrow> w\<lparr>files := (p, True) # files w\<rparr>
        | WriteFile p text \<Rightarrow> w\<lparr>files := (p, False) # files w\<rparr>
        | _ \<Rightarrow> w)"

text \<open>
  A piece of the program returns the error that it threw, if any, and the world that it
  left: what was done before a throw stays done. An awaited call returns or throws.
  \<open>andThen\<close> is the sequence of two pieces, \<open>calls\<close> that of a list of calls.
\<close>

definition call :: "env \<Rightarrow> event \<Rightarrow> world \<Rightarrow> string option \<times> world" where
  "call e c w = (case fails e c of Some err \<Rightarrow> (Some err, w) | None \<Rightarrow> (None, perform c w))"

definition andThen ::
  "string option \<times> world \<Rightarrow> (world \<Rightarrow> string option \<times> world) \<Rightarrow> string option \<times> world" where
  "andThen r f = (case r of (Some err, w) \<Rightarrow> (Some err, w) | (None, w) \<Rightarrow> f w)"

fun calls :: "env \<Rightarrow> event list \<Rightarrow> world \<Rightarrow> string option \<times> world" where
  "calls e [] w = (None, w)"
| "calls e (c # cs) w = andThen (call e c w) (calls e cs)"

text \<open>
  A call of an operation of the store from a processor: the operation reads the stored
  array and hands the new one to the Memento, whose update may throw.
\<close>

definition store_call :: "env \<Rightarrow> (world \<Rightarrow> world) \<Rightarrow> world \<Rightarrow> string option \<times> world" where
  "store_call e f w = call e (MementoUpdate (getAll (f w))) w"


section \<open>The two queue processors (queue/QueueProcessor.ts)\<close>

text \<open>
  The source holds two processors. The first sends a due prompt to a terminal and removes
  it from the store; its \<open>process()\<close> returns a number, and it has \<open>forceDeliver\<close>: it is the
  one that the views call. The second writes a file and marks the item processed; its
  \<open>process()\<close> returns nothing. The names of the second end in \<open>_file\<close> here. Each call that
  \<open>deliver\<close> makes may throw; the calls of \<open>process()\<close> and \<open>forceDeliver\<close> outside \<open>deliver\<close>
  (the lines of the log, the error message of the \<open>catch\<close> block, the firing of the event)
  are taken to return.
\<close>

text \<open>
  \<open>toLowerCase\<close> on the letters \<open>A\<close> to \<open>Z\<close>; other code units stay as they are. The program
  compares the result with words of ASCII letters only, and no other code unit becomes an
  ASCII letter in lower case.
\<close>

definition toLowerChar :: "char \<Rightarrow> char" where
  "toLowerChar c =
     (let n = (of_char c :: nat) in if 65 \<le> n \<and> n \<le> 90 then char_of (n + 32) else c)"

definition toLowerCase :: "string \<Rightarrow> string" where
  "toLowerCase s = map toLowerChar s"

definition startsWith :: "string \<Rightarrow> string \<Rightarrow> bool" where
  "startsWith s p = (take (length p) s = p)"

primrec includes_str :: "string \<Rightarrow> string \<Rightarrow> bool" where
  "includes_str [] p = (p = [])"
| "includes_str (c # cs) p = (startsWith (c # cs) p \<or> includes_str cs p)"

text \<open>
  \<open>findClaudeTerminal(hint)\<close>: the terminal named as the hint (a hint that is undefined or
  empty is falsy), else the one named \<open>Claude\<close>, else the first whose lower-cased name
  contains \<open>claude\<close>, else the active terminal. A terminal is its name.
\<close>

definition findClaudeTerminal :: "world \<Rightarrow> string option \<Rightarrow> string option" where
  "findClaudeTerminal w hint =
     (let byHint = (case hint of
                      None \<Rightarrow> None
                    | Some h \<Rightarrow> if h = [] then None else find (\<lambda>t. t = h) (terminals w))
      in case byHint of
           Some t \<Rightarrow> Some t
         | None \<Rightarrow>
             (case find (\<lambda>t. t = ''Claude'') (terminals w) of
                Some t \<Rightarrow> Some t
              | None \<Rightarrow>
                  (case find (\<lambda>t. includes_str (toLowerCase t) ''claude'') (terminals w) of
                     Some t \<Rightarrow> Some t
                   | None \<Rightarrow> activeTerminal w)))"

definition resolveWorkspaceFolder :: "env \<Rightarrow> QueueItem \<Rightarrow> string option" where
  "resolveWorkspaceFolder e item =
     (case workspaceFolders e of
        [] \<Rightarrow> None
      | f # fs \<Rightarrow>
          (if workspaceFolder item \<noteq> []
           then (case find (\<lambda>g. g = workspaceFolder item) (f # fs) of
                   Some m \<Rightarrow> Some m
                 | None \<Rightarrow> Some f)
           else Some f))"

text \<open>
  \<open>path.join\<close> and \<open>Uri.joinPath\<close> of two paths are their concatenation with a separator
  (the normal form that they compute is not modelled), and a \<open>Uri\<close> is its path.
\<close>

definition joinPath :: "string \<Rightarrow> string \<Rightarrow> string" where
  "joinPath a b = a @ ''/'' @ b"

subsection \<open>The processor that injects into a terminal\<close>

text \<open>
  The end of \<open>deliver(item)\<close>: the item is removed from the store, then the line of the log
  and the message that the prompt was sent.
\<close>

definition delivered :: "env \<Rightarrow> QueueItem \<Rightarrow> world \<Rightarrow> string option \<times> world" where
  "delivered e item w =
     andThen (store_call e (remove (item_id item)) w)
       (calls e [LogDelivered (item_id item), ShowInformationMessage (item_id item)])"

definition deliver :: "env \<Rightarrow> world \<Rightarrow> QueueItem \<Rightarrow> string option \<times> world" where
  "deliver e w item =
     (case findClaudeTerminal w (targetTerminalName item) of
        Some existing \<Rightarrow>
          (let safe = filter (\<lambda>c. c \<noteq> CHR 0x1B) (promptText item)
           in andThen
                (calls e [LogSendingToExisting existing, TerminalShow existing,
                          TerminalSendText existing safe False,
                          TerminalSendText existing [CHR 0x0D] False] w)
                (delivered e item))
      | None \<Rightarrow>
          (let cwd = (case resolveWorkspaceFolder e item of
                        Some f \<Rightarrow> f
                      | None \<Rightarrow> homedir e);
               tmpFile = joinPath (tmpdir e) (''cq-'' @ item_id item @ ''.txt'')
           in andThen
                (calls e [LogCreatingSession,
                          WriteFileSync tmpFile (promptText item),
                          CreateTerminal ''Claude'' cwd,
                          TerminalShow ''Claude'',
                          TerminalSendText ''Claude''
                            (''claude '' @ [CHR 0x22] @ ''$(cat '' @ [CHR 0x27] @ tmpFile
                               @ [CHR 0x27] @ '')'' @ [CHR 0x22] @ '' ; rm -f ''
                               @ [CHR 0x27] @ tmpFile @ [CHR 0x27])
                            True] w)
                (delivered e item)))"

text \<open>
  The \<open>catch\<close> block of the loop of \<open>process()\<close>, the same in both processors: after a
  delivery that threw, a line of the log and an error message, both with the id of the
  item; after one that returned, nothing.
\<close>

definition caught :: "QueueItem \<Rightarrow> string option \<times> world \<Rightarrow> world" where
  "caught item r =
     (case r of
        (None, w') \<Rightarrow> w'
      | (Some err, w') \<Rightarrow>
          emit [LogErrorDelivering (item_id item) err, ShowErrorMessage (item_id item) err] w')"

text \<open>
  The loop of \<open>process()\<close>, the same in both processors, each around its own \<open>deliver\<close>:
  \<open>for (const item of due) { try { await this.deliver(item); } catch (err) { ... } }\<close>.
\<close>

fun process_loop ::
  "(world \<Rightarrow> QueueItem \<Rightarrow> string option \<times> world) \<Rightarrow> world \<Rightarrow> QueueItem list \<Rightarrow> world" where
  "process_loop d w [] = w"
| "process_loop d w (item # rest) = process_loop d (caught item (d w item)) rest"

definition due_items :: "env \<Rightarrow> world \<Rightarrow> QueueItem list" where
  "due_items e w =
     filter (\<lambda>i. isOverdue (parseDate e (notBefore i)) (Instant (now e))) (getPending w)"

text \<open>\<open>process()\<close>: the number it returns and the world after the tick.\<close>

definition process :: "env \<Rightarrow> world \<Rightarrow> nat \<times> world" where
  "process e w =
     (let pending = getPending w;
          due = due_items e w;
          w1 = emit [LogTick (length pending) (length due)] w
      in if length due = 0 then (0, w1)
         else (length due, emit [Fire] (process_loop (deliver e) w1 due)))"

definition forceDeliver :: "env \<Rightarrow> world \<Rightarrow> string \<Rightarrow> world" where
  "forceDeliver e w x =
     (case find (\<lambda>i. item_id i = x \<and> \<not> processed i) (getAll w) of
        None \<Rightarrow> w
      | Some item \<Rightarrow>
          (let w' = (case deliver e w item of
                       (None, w1) \<Rightarrow> w1
                     | (Some err, w1) \<Rightarrow>
                         emit [LogErrorForceDelivering x err, ShowErrorMessageForce x err] w1)
           in emit [Fire] w'))"

subsection \<open>The processor that writes a file, and util/fs.ts\<close>



















section \<open>Regular expressions as the parser uses them\<close>

text \<open>
  A text is a list of code units below 256. The patterns of the parser carry the flag \<open>i\<close>
  and are built from ASCII literals, \<open>\d\<close>, \<open>\s\<close>, \<open>\b\<close>, groups, alternatives and greedy
  quantifiers. With the flag \<open>i\<close> (and without \<open>u\<close>) an ASCII literal matches exactly its two
  cases, \<open>\d\<close> is \<open>0\<close> to \<open>9\<close>, \<open>\w\<close> is letters, digits and the underscore, and \<open>\s\<close> below
  256 is tab, line feed, vertical tab, form feed, carriage return, space and the
  no-break space.
\<close>

definition isDigit :: "char \<Rightarrow> bool" where
  "isDigit c = (c \<in> set ''0123456789'')"

definition isSpace :: "char \<Rightarrow> bool" where
  "isSpace c =
     (c \<in> set [CHR 0x09, CHR 0x0A, CHR 0x0B, CHR 0x0C, CHR 0x0D, CHR 0x20, CHR 0xA0])"

definition isWordChar :: "char \<Rightarrow> bool" where
  "isWordChar c =
     (c \<in> set ''abcdefghijklmnopqrstuvwxyzABCDEFGHIJKLMNOPQRSTUVWXYZ0123456789_'')"

datatype regex =
    Lit char
  | Digit
  | Space
  | WordBoundary
  | Eps
  | Seq regex regex
  | Alt regex regex
  | Opt regex
  | Star regex
  | Group nat regex

text \<open>
  The state of a match in progress: the code unit before the position (for \<open>\b\<close>), the text
  from the position on, and the captures so far, the latest first.
\<close>

record mstate =
  prev :: "char option"
  rest :: string
  caps :: "(nat \<times> string) list"

definition step_if :: "(char \<Rightarrow> bool) \<Rightarrow> mstate \<Rightarrow> mstate list" where
  "step_if P s =
     (case rest s of
        [] \<Rightarrow> []
      | x # xs \<Rightarrow> if P x then [s\<lparr>prev := Some x, rest := xs\<rparr>] else [])"

definition progress :: "mstate \<Rightarrow> mstate \<Rightarrow> bool" where
  "progress s s' = (length (rest s') < length (rest s))"

definition at_boundary :: "mstate \<Rightarrow> bool" where
  "at_boundary s =
     ((case prev s of None \<Rightarrow> False | Some c \<Rightarrow> isWordChar c)
      \<noteq> (case rest s of [] \<Rightarrow> False | c # cs \<Rightarrow> isWordChar c))"

text \<open>
  \<open>iter n f s\<close>: the states after zero or more rounds of \<open>f\<close> from \<open>s\<close>, more rounds first
  (greedy). A round that consumes nothing is dropped, as the backtracking matcher of
  ECMAScript does, so the length of the text bounds the number of rounds.
\<close>

primrec iter :: "nat \<Rightarrow> (mstate \<Rightarrow> mstate list) \<Rightarrow> mstate \<Rightarrow> mstate list" where
  "iter 0 f s = [s]"
| "iter (Suc n) f s = concat (map (iter n f) (filter (progress s) (f s))) @ [s]"

text \<open>
  \<open>matches r s\<close>: every state in which a match of \<open>r\<close> from \<open>s\<close> can end, in the order in which
  the backtracking matcher tries them; the matcher takes the first with which the rest of
  the pattern succeeds.
\<close>

primrec matches :: "regex \<Rightarrow> mstate \<Rightarrow> mstate list" where
  "matches (Lit c) s = step_if (\<lambda>x. toLowerChar x = toLowerChar c) s"
| "matches Digit s = step_if isDigit s"
| "matches Space s = step_if isSpace s"
| "matches WordBoundary s = (if at_boundary s then [s] else [])"
| "matches Eps s = [s]"
| "matches (Seq a b) s = concat (map (matches b) (matches a s))"
| "matches (Alt a b) s = matches a s @ matches b s"
| "matches (Opt r) s = filter (progress s) (matches r s) @ [s]"
| "matches (Star r) s = iter (length (rest s)) (matches r) s"
| "matches (Group n r) s =
     map (\<lambda>s'. s'\<lparr>caps := (n, take (length (rest s) - length (rest s')) (rest s)) # caps s'\<rparr>)
       (matches r s)"

definition Plus :: "regex \<Rightarrow> regex" where
  "Plus r = Seq r (Star r)"

primrec Str :: "string \<Rightarrow> regex" where
  "Str [] = Eps"
| "Str (c # cs) = Seq (Lit c) (Str cs)"

primrec Seqs :: "regex list \<Rightarrow> regex" where
  "Seqs [] = Eps"
| "Seqs (r # rs) = Seq r (Seqs rs)"

text \<open>The result of \<open>text.match(re)\<close>: element 0 and the groups that took part.\<close>

record jsmatch =
  matched :: string
  groups :: "(nat \<times> string) list"

definition match_here :: "regex \<Rightarrow> char option \<Rightarrow> string \<Rightarrow> jsmatch option" where
  "match_here r p s =
     (case matches r \<lparr>prev = p, rest = s, caps = []\<rparr> of
        [] \<Rightarrow> None
      | s' # _ \<Rightarrow> Some \<lparr>matched = take (length s - length (rest s')) s, groups = caps s'\<rparr>)"

text \<open>A pattern without the flag \<open>g\<close> matches at the leftmost position where it can.\<close>

fun scan :: "regex \<Rightarrow> char option \<Rightarrow> string \<Rightarrow> jsmatch option" where
  "scan r p [] = match_here r p []"
| "scan r p (c # cs) =
     (case match_here r p (c # cs) of
        Some m \<Rightarrow> Some m
      | None \<Rightarrow> scan r (Some c) cs)"

definition match :: "string \<Rightarrow> regex \<Rightarrow> jsmatch option" where
  "match text r = scan r None text"

definition grp :: "jsmatch \<Rightarrow> nat \<Rightarrow> string option" where
  "grp m k = map_of (groups m) k"

text \<open>A group as an argument of type string: \<open>undefined\<close> reads as the text \<open>undefined\<close>.\<close>

definition str_of :: "string option \<Rightarrow> string" where
  "str_of g = (case g of None \<Rightarrow> ''undefined'' | Some s \<Rightarrow> s)"

text \<open>
  \<^verbatim>\<open>/(?:reset(?:s)?|available|try\s+again|retry)\s+at\s+(\d{1,2}):(\d{2})(?::(\d{2}))?\s*(am|pm)?/i\<close>
\<close>

definition re_clock :: regex where
  "re_clock =
     Seqs [Group 1 (Seq Digit (Opt Digit)), Lit CHR '':'', Group 2 (Seq Digit Digit),
           Opt (Seq (Lit CHR '':'') (Group 3 (Seq Digit Digit))),
           Star Space, Opt (Group 4 (Alt (Str ''am'') (Str ''pm'')))]"

definition re_absReset :: regex where
  "re_absReset =
     Seqs [Alt (Seq (Str ''reset'') (Opt (Lit CHR ''s'')))
            (Alt (Str ''available'')
              (Alt (Seqs [Str ''try'', Plus Space, Str ''again'']) (Str ''retry''))),
           Plus Space, Str ''at'', Plus Space, re_clock]"

text \<open>\<^verbatim>\<open>/\bat\s+(\d{1,2}):(\d{2})(?::(\d{2}))?\s*(am|pm)?/i\<close>\<close>

definition re_atTime :: regex where
  "re_atTime = Seqs [WordBoundary, Str ''at'', Plus Space, re_clock]"

text \<open>\<^verbatim>\<open>/(\d+)\s*h(?:ours?)?\s+(\d+)\s*m(?:in(?:utes?)?)?/i\<close>\<close>

definition re_combined :: regex where
  "re_combined =
     Seqs [Group 1 (Plus Digit), Star Space, Lit CHR ''h'',
           Opt (Seq (Str ''our'') (Opt (Lit CHR ''s''))), Plus Space,
           Group 2 (Plus Digit), Star Space, Lit CHR ''m'',
           Opt (Seq (Str ''in'') (Opt (Seq (Str ''ute'') (Opt (Lit CHR ''s'')))))]"

text \<open>\<^verbatim>\<open>(?:in|after|for)\<close> and \<^verbatim>\<open>\d+(?:\.\d+)?\<close>\<close>

definition re_prep :: regex where
  "re_prep = Alt (Str ''in'') (Alt (Str ''after'') (Str ''for''))"

definition re_decimal :: regex where
  "re_decimal = Seq (Plus Digit) (Opt (Seq (Lit CHR ''.'') (Plus Digit)))"

text \<open>\<^verbatim>\<open>/(?:in|after|for)\s+(\d+(?:\.\d+)?)\s*h(?:ours?)?/i\<close>\<close>

definition re_hoursOnly :: regex where
  "re_hoursOnly =
     Seqs [re_prep, Plus Space, Group 1 re_decimal, Star Space, Lit CHR ''h'',
           Opt (Seq (Str ''our'') (Opt (Lit CHR ''s'')))]"

text \<open>\<^verbatim>\<open>/(\d+(?:\.\d+)?)\s*hours?/i\<close>\<close>

definition re_bareHours :: regex where
  "re_bareHours = Seqs [Group 1 re_decimal, Star Space, Str ''hour'', Opt (Lit CHR ''s'')]"

text \<open>\<^verbatim>\<open>/(?:in|after|for)\s+(\d+(?:\.\d+)?)\s*m(?:in(?:utes?)?)?/i\<close>\<close>

definition re_minutesOnly :: regex where
  "re_minutesOnly =
     Seqs [re_prep, Plus Space, Group 1 re_decimal, Star Space, Lit CHR ''m'',
           Opt (Seq (Str ''in'') (Opt (Seq (Str ''ute'') (Opt (Lit CHR ''s'')))))]"

text \<open>\<^verbatim>\<open>/(?:in|after|for)\s+(\d+)\s*s(?:ec(?:onds?)?)?/i\<close>\<close>

definition re_secondsOnly :: regex where
  "re_secondsOnly =
     Seqs [re_prep, Plus Space, Group 1 (Plus Digit), Star Space, Lit CHR ''s'',
           Opt (Seq (Str ''ec'') (Opt (Seq (Str ''ond'') (Opt (Lit CHR ''s'')))))]"


section \<open>The rate-limit message parser (util/time.ts)\<close>

text \<open>
  A JavaScript number is a rational here, or NaN: the rounding of binary floating point
  is not modelled. \<open>parseInt\<close> returns an integer or NaN (\<open>None\<close>).
\<close>

datatype number = Num rat | NaN

datatype confidence = High | Medium | Low

record RateLimitInfo =
  delayHours :: number
  resetAt :: "jsdate option"
  rawMatch :: string
  confidence :: confidence

definition digitsValue :: "string \<Rightarrow> nat" where
  "digitsValue ds = foldl (\<lambda>a c. 10 * a + (of_char c - 48)) 0 ds"

text \<open>\<open>parseInt(s, 10)\<close>: white space, a sign, then the longest run of digits.\<close>

definition parseInt :: "string \<Rightarrow> int option" where
  "parseInt s =
     (let t = dropWhile isSpace s;
          neg = (case t of [] \<Rightarrow> False | c # cs \<Rightarrow> c = CHR ''-'');
          u = (case t of [] \<Rightarrow> [] | c # cs \<Rightarrow> if c = CHR ''-'' \<or> c = CHR ''+'' then cs else t);
          ds = takeWhile isDigit u
      in if ds = [] then None
         else Some (if neg then - int (digitsValue ds) else int (digitsValue ds)))"

text \<open>
  \<open>parseFloat(s)\<close> on what the group \<^verbatim>\<open>(\d+(?:\.\d+)?)\<close> can hold: digits and an optional
  fraction. Signs, exponents, a leading point and leading white space, which such a group
  never holds, are not read.
\<close>

definition parseFloat :: "string \<Rightarrow> number" where
  "parseFloat s =
     (let ip = takeWhile isDigit s; r = dropWhile isDigit s
      in if ip = [] then NaN
         else (case r of
                 [] \<Rightarrow> Num (of_nat (digitsValue ip))
               | c # f \<Rightarrow>
                   if c = CHR ''.''
                   then (let fp = takeWhile isDigit f
                         in Num (of_nat (digitsValue ip)
                                 + of_nat (digitsValue fp) / 10 ^ length fp))
                   else Num (of_nat (digitsValue ip))))"

text \<open>\<open>Math.round\<close>: the nearest integer, a tie going up.\<close>

definition Math_round :: "rat \<Rightarrow> int" where
  "Math_round x = \<lfloor>x + 1 / 2\<rfloor>"

definition addBuffer :: "number \<Rightarrow> number" where
  "addBuffer hours =
     (case hours of
        NaN \<Rightarrow> NaN
      | Num h \<Rightarrow> Num (of_int (Math_round ((h + 5 / 60) * 10)) / 10))"

text \<open>\<open>new Date(x)\<close> on a number: the fraction is cut off towards zero.\<close>

definition newDate :: "number \<Rightarrow> jsdate" where
  "newDate x =
     (case x of
        NaN \<Rightarrow> InvalidDate
      | Num v \<Rightarrow> Instant (if 0 \<le> v then \<lfloor>v\<rfloor> else \<lceil>v\<rceil>))"

text \<open>
  \<open>parseAbsoluteTime\<close>; the first two arguments are the local zone and the clock,
  \<open>new Date()\<close>. The difference of two time values over 3600000 is NaN when one of them is.
\<close>

definition hoursBetween :: "jsdate \<Rightarrow> jsdate \<Rightarrow> number" where
  "hoursBetween a b =
     (case (getTime a, getTime b) of
        (Some x, Some y) \<Rightarrow> Num (of_int (x - y) / 3600000)
      | _ \<Rightarrow> NaN)"

definition parseAbsoluteTime ::
  "zone \<Rightarrow> int \<Rightarrow> string \<Rightarrow> string \<Rightarrow> string option \<Rightarrow> string \<Rightarrow> RateLimitInfo option" where
  "parseAbsoluteTime tz nowMs hourStr minuteStr ampm rawText =
     (case parseInt hourStr of
        None \<Rightarrow> None
      | Some hour0 \<Rightarrow>
          (case parseInt minuteStr of
             None \<Rightarrow> None
           | Some minute \<Rightarrow>
               (let truthy = (case ampm of None \<Rightarrow> False | Some a \<Rightarrow> a \<noteq> []);
                    lower = toLowerCase (str_of ampm);
                    hour1 = (if truthy \<and> lower = ''pm'' \<and> hour0 \<noteq> 12 then hour0 + 12 else hour0);
                    hour = (if truthy \<and> lower = ''am'' \<and> hour1 = 12 then 0 else hour1);
                    today = setHours tz (Instant nowMs) hour minute 0 0;
                    reset = (if num_le (getTime today) (getTime (Instant nowMs))
                             then setDate_next tz today else today);
                    rawHours = hoursBetween reset (Instant nowMs)
                in Some \<lparr>delayHours = addBuffer rawHours, resetAt = Some reset,
                         rawMatch = take 80 rawText, confidence = High\<rparr>)))"

text \<open>
  What the five relative cases do with the total of hours (\<open>total\<close> in the source) and the
  matched text; the first argument is \<open>Date.now()\<close>.
\<close>

definition relativeInfo :: "int \<Rightarrow> number \<Rightarrow> string \<Rightarrow> confidence \<Rightarrow> RateLimitInfo" where
  "relativeInfo nowMs totalHours raw conf =
     (let d = addBuffer totalHours
      in \<lparr>delayHours = d,
          resetAt = Some (newDate (case d of NaN \<Rightarrow> NaN
                                   | Num v \<Rightarrow> Num (of_int nowMs + v * 3600000))),
          rawMatch = raw, confidence = conf\<rparr>)"

definition num_div :: "number \<Rightarrow> rat \<Rightarrow> number" where
  "num_div x k = (case x of NaN \<Rightarrow> NaN | Num v \<Rightarrow> Num (v / k))"

definition int_num :: "int option \<Rightarrow> number" where
  "int_num x = (case x of None \<Rightarrow> NaN | Some v \<Rightarrow> Num (of_int v))"

definition num_add :: "number \<Rightarrow> number \<Rightarrow> number" where
  "num_add x y = (case (x, y) of (Num a, Num b) \<Rightarrow> Num (a + b) | _ \<Rightarrow> NaN)"

text \<open>The first two cases: a pattern with a clock time, handed to \<open>parseAbsoluteTime\<close>.\<close>

definition absoluteCase :: "zone \<Rightarrow> int \<Rightarrow> string \<Rightarrow> regex \<Rightarrow> RateLimitInfo option" where
  "absoluteCase tz nowMs text r =
     (case match text r of
        None \<Rightarrow> None
      | Some m \<Rightarrow>
          parseAbsoluteTime tz nowMs (str_of (grp m 1)) (str_of (grp m 2)) (grp m 4) text)"

text \<open>
  \<open>parseRateLimitMessage(text)\<close>; the first two arguments are the local zone and the clock
  (\<open>new Date()\<close> and \<open>Date.now()\<close>, read once).
\<close>

definition parseRateLimitMessage :: "zone \<Rightarrow> int \<Rightarrow> string \<Rightarrow> RateLimitInfo option" where
  "parseRateLimitMessage tz nowMs text =
     (case absoluteCase tz nowMs text re_absReset of
        Some info \<Rightarrow> Some info
      | None \<Rightarrow>
     (case absoluteCase tz nowMs text re_atTime of
        Some info \<Rightarrow> Some (info\<lparr>confidence := Medium\<rparr>)
      | None \<Rightarrow>
     (case match text re_combined of
        Some combined \<Rightarrow>
          (let h = int_num (parseInt (str_of (grp combined 1)));
               m = int_num (parseInt (str_of (grp combined 2)));
               totalHours = num_add h (num_div m 60)
           in Some (relativeInfo nowMs totalHours (matched combined) High))
      | None \<Rightarrow>
     (case match text re_hoursOnly of
        Some hoursOnly \<Rightarrow>
          (let totalHours = parseFloat (str_of (grp hoursOnly 1))
           in Some (relativeInfo nowMs totalHours (matched hoursOnly) High))
      | None \<Rightarrow>
     (case match text re_bareHours of
        Some bareHours \<Rightarrow>
          (let totalHours = parseFloat (str_of (grp bareHours 1))
           in Some (relativeInfo nowMs totalHours (matched bareHours) Medium))
      | None \<Rightarrow>
     (case match text re_minutesOnly of
        Some minutesOnly \<Rightarrow>
          (let totalHours = num_div (parseFloat (str_of (grp minutesOnly 1))) 60
           in Some (relativeInfo nowMs totalHours (matched minutesOnly) High))
      | None \<Rightarrow>
     (case match text re_secondsOnly of
        Some secondsOnly \<Rightarrow>
          (let totalHours = num_div (int_num (parseInt (str_of (grp secondsOnly 1)))) 3600
           in Some (relativeInfo nowMs totalHours (matched secondsOnly) Medium))
      | None \<Rightarrow> None)))))))"

definition parseRateLimitDelay :: "zone \<Rightarrow> int \<Rightarrow> string \<Rightarrow> number option" where
  "parseRateLimitDelay tz nowMs text =
     map_option delayHours (parseRateLimitMessage tz nowMs text)"


section \<open>Notions used to state the properties\<close>

text \<open>
  The outcome that the trace records for a delivery: the information message \<open>Prompt sent\<close>
  for a delivered item, the error message of the \<open>catch\<close> block of \<open>process()\<close> for a failed one.
\<close>

fun outcome :: "event \<Rightarrow> (string \<times> bool) list" where
  "outcome (ShowInformationMessage x) = [(x, True)]"
| "outcome (ShowErrorMessage x err) = [(x, False)]"
| "outcome _ = []"

definition outcomes :: "event list \<Rightarrow> (string \<times> bool) list" where
  "outcomes es = concat (map outcome es)"

text \<open>The numbers of the groups of a pattern.\<close>

primrec groups_of :: "regex \<Rightarrow> nat set" where
  "groups_of (Lit c) = {}"
| "groups_of Digit = {}"
| "groups_of Space = {}"
| "groups_of WordBoundary = {}"
| "groups_of Eps = {}"
| "groups_of (Seq a b) = groups_of a \<union> groups_of b"
| "groups_of (Alt a b) = groups_of a \<union> groups_of b"
| "groups_of (Opt r) = groups_of r"
| "groups_of (Star r) = groups_of r"
| "groups_of (Group n r) = insert n (groups_of r)"

text \<open>
  The clock time that a text names, as the specification words it: hour and minute, the
  hour in 24-hour form (PM adds 12 unless the hour is 12, AM turns 12 into 0).
\<close>

definition isMeridiem :: "string \<Rightarrow> string option \<Rightarrow> bool" where
  "isMeridiem w ampm = (case ampm of None \<Rightarrow> False | Some a \<Rightarrow> toLowerCase a = w)"

definition clock24 :: "string \<Rightarrow> string \<Rightarrow> string option \<Rightarrow> (int \<times> int) option" where
  "clock24 hourStr minuteStr ampm =
     (case (parseInt hourStr, parseInt minuteStr) of
        (Some h, Some m) \<Rightarrow>
          Some (if isMeridiem ''pm'' ampm then (if h = 12 then 12 else h + 12)
                else if isMeridiem ''am'' ampm then (if h = 12 then 0 else h)
                else h, m)
      | _ \<Rightarrow> None)"

text \<open>
  The local time value of the day of a local time value at an hour and a minute, seconds and
  milliseconds zero; and today's instant at an hour and a minute: that local time value of
  the local day of the clock, taken back to UTC.
\<close>

definition todayAt :: "int \<Rightarrow> int \<Rightarrow> int \<Rightarrow> int" where
  "todayAt localNow h m = dayNumber localNow * msPerDay + h * 3600000 + m * 60000"

definition todayInstant :: "zone \<Rightarrow> int \<Rightarrow> int \<Rightarrow> int \<Rightarrow> int" where
  "todayInstant tz nowMs h m = UTC tz (todayAt (LocalTime tz nowMs) h m)"

text \<open>
  The next occurrence of a clock time as the program computes it: today's instant, and when
  that is in the past or exactly now, the instant that \<open>setDate(getDate() + 1)\<close> makes of it.
\<close>

definition nextOccurrence :: "zone \<Rightarrow> int \<Rightarrow> int \<Rightarrow> int \<Rightarrow> int" where
  "nextOccurrence tz nowMs h m =
     (if todayInstant tz nowMs h m \<le> nowMs
      then UTC tz (LocalTime tz (todayInstant tz nowMs h m) + msPerDay)
      else todayInstant tz nowMs h m)"


text \<open>The match of the absolute pattern that wins: the first if it matches, else the second.\<close>

definition clockMatch :: "string \<Rightarrow> jsmatch option" where
  "clockMatch text =
     (case match text re_absReset of
        Some m \<Rightarrow> Some m
      | None \<Rightarrow> match text re_atTime)"


section \<open>Concrete inputs\<close>

text \<open>A text of 106 code units that names a clock time from its 90th code unit on.\<close>

definition long_text :: string where
  "long_text =
     ''You have reached the usage limit for this billing period on the current ''
     @ ''plan; your limit resets at 3:00 pm''"


text \<open>
  A concrete tick: two pending items, due at 05:00 and 05:30 UTC on 2024-01-01, and a tick
  at 06:00 in the zone UTC with no terminal open and no workspace folder. The temporary
  file of the first item cannot be written; every other call returns.
\<close>

definition item_a :: QueueItem where
  "item_a = \<lparr>item_id = ''a1b2c3d4'', createdAt = ''2024-01-01T00:00:00.000Z'',
             notBefore = ''2024-01-01T05:00:00.000Z'', promptText = ''continue'',
             workspaceFolder = [], processed = False, targetTerminalName = None\<rparr>"

definition item_b :: QueueItem where
  "item_b = \<lparr>item_id = ''0f9e8d7c'', createdAt = ''2024-01-01T00:30:00.000Z'',
             notBefore = ''2024-01-01T05:30:00.000Z'', promptText = ''run the tests'',
             workspaceFolder = [], processed = False, targetTerminalName = None\<rparr>"

definition env_tick :: env where
  "env_tick =
     \<lparr>now = 1704088800000,
      zone = (\<lambda>t isUTC. 0),
      parseDate = (\<lambda>s. if s = ''2024-01-01T05:00:00.000Z'' then Instant 1704085200000
                        else if s = ''2024-01-01T05:30:00.000Z'' then Instant 1704087000000
                        else if s = ''2024-01-01T00:00:00.000Z'' then Instant 1704067200000
                        else if s = ''2024-01-01T00:30:00.000Z'' then Instant 1704069000000
                        else InvalidDate),
      workspaceFolders = [], homedir = ''/home/u'', tmpdir = ''/tmp'',
      outputDir = ''.prompt-queue'', filenameTemplate = ''{timestamp}_{id}.md'',
      chosenAction = (\<lambda>p. None),
      fails = (\<lambda>c. if c = WriteFileSync ''/tmp/cq-a1b2c3d4.txt'' ''continue''
                     then Some ''EACCES: permission denied'' else None)\<rparr>"

definition world_ab :: world where
  "world_ab =
     \<lparr>items = [item_a, item_b], terminals = [], activeTerminal = None, files = [],
      trace = []\<rparr>"

text \<open>The same store after the second item was marked processed.\<close>

definition world_a_done_b :: world where
  "world_a_done_b =
     \<lparr>items = [item_a, item_b\<lparr>processed := True\<rparr>], terminals = [], activeTerminal = None,
      files = [], trace = []\<rparr>"




section \<open>The overdue check\<close>

text \<open>
  C6: \<open>isOverdue(t, now)\<close> is true exactly when \<open>t.getTime() <= now.getTime()\<close>; for two
  instants that is the order of their time values, and an instant is overdue at itself.
\<close>

theorem isOverdue_iff_le:
  "(isOverdue t n \<longleftrightarrow> num_le (getTime t) (getTime n))
   \<and> (isOverdue (Instant a) (Instant b) \<longleftrightarrow> a \<le> b)
   \<and> isOverdue (Instant a) (Instant a)"
  by (simp add: isOverdue_def)


section \<open>The store\<close>

lemma markProcessed_twice: "markProcessed x (markProcessed x w) = markProcessed x w"
  by (simp add: markProcessed_def getAll_def comp_def)

lemma markProcessed_ids: "map item_id (getAll (markProcessed x w)) = map item_id (getAll w)"
  by (simp add: markProcessed_def getAll_def comp_def)

lemma filter_marked_processed:
  "list_all processed
     (filter (\<lambda>i. item_id i = x)
        (map (\<lambda>i. if item_id i = x then i\<lparr>processed := True\<rparr> else i) xs))"
  by (induction xs) simp_all

lemma markProcessed_marks:
  "list_all processed (filter (\<lambda>i. item_id i = x) (getAll (markProcessed x w)))"
  by (simp add: markProcessed_def getAll_def filter_marked_processed)

lemma filter_others_marked:
  "filter (\<lambda>i. item_id i \<noteq> x)
     (map (\<lambda>i. if item_id i = x then i\<lparr>processed := True\<rparr> else i) xs)
   = filter (\<lambda>i. item_id i \<noteq> x) xs"
  by (induction xs) simp_all

lemma markProcessed_others:
  "filter (\<lambda>i. item_id i \<noteq> x) (getAll (markProcessed x w))
     = filter (\<lambda>i. item_id i \<noteq> x) (getAll w)"
  by (simp add: markProcessed_def getAll_def filter_others_marked)

lemma markProcessed_absent:
  assumes "x \<notin> item_id ` set (getAll w)"
  shows "markProcessed x w = w"
proof -
  have "map (\<lambda>i. if item_id i = x then i\<lparr>processed := True\<rparr> else i) (items w) = items w"
    using assms by (intro map_idI) (auto simp: getAll_def)
  then show ?thesis by (simp add: markProcessed_def getAll_def)
qed

text \<open>
  C9: \<open>markProcessed(id)\<close> twice leaves the store that one call leaves. After it the items
  with that id are processed, the others are as they were, and the ids stand in the store
  as before, none added and none removed. When no item has the id the store is unchanged.
\<close>

theorem markProcessed_idempotent:
  "markProcessed x (markProcessed x w) = markProcessed x w
   \<and> map item_id (getAll (markProcessed x w)) = map item_id (getAll w)
   \<and> list_all processed (filter (\<lambda>i. item_id i = x) (getAll (markProcessed x w)))
   \<and> filter (\<lambda>i. item_id i \<noteq> x) (getAll (markProcessed x w))
        = filter (\<lambda>i. item_id i \<noteq> x) (getAll w)
   \<and> (x \<notin> item_id ` set (getAll w) \<longrightarrow> markProcessed x w = w)"
  using markProcessed_twice markProcessed_ids markProcessed_marks markProcessed_others
    markProcessed_absent
  by blast

theorem markProcessed_idempotent_witness:
  "''ffffffff'' \<notin> item_id ` set (getAll world_ab)
   \<and> markProcessed ''ffffffff'' world_ab = world_ab
   \<and> markProcessed ''0f9e8d7c'' (markProcessed ''0f9e8d7c'' world_ab) = world_a_done_b"
proof -
  have absent: "''ffffffff'' \<notin> item_id ` set (getAll world_ab)"
    by (simp add: world_ab_def getAll_def item_a_def item_b_def)
  have once: "markProcessed ''0f9e8d7c'' world_ab = world_a_done_b"
    by (simp add: markProcessed_def world_ab_def world_a_done_b_def getAll_def
          item_a_def item_b_def)
  show ?thesis
    using absent once markProcessed_idempotent[of "''ffffffff''" world_ab]
      markProcessed_idempotent[of "''0f9e8d7c''" world_ab]
    by simp
qed


section \<open>The processor\<close>


lemma process_returns_due_length: "fst (process e w) = length (due_items e w)"
  by (simp add: process_def Let_def)

lemma process_world_ab:
  "process env_tick world_ab =
     (2, \<lparr>items = [item_a], terminals = [''Claude''], activeTerminal = Some ''Claude'',
          files = [],
          trace = [LogTick 2 2,
                   LogCreatingSession,
                   LogErrorDelivering ''a1b2c3d4'' ''EACCES: permission denied'',
                   ShowErrorMessage ''a1b2c3d4'' ''EACCES: permission denied'',
                   LogCreatingSession,
                   WriteFileSync ''/tmp/cq-0f9e8d7c.txt'' ''run the tests'',
                   CreateTerminal ''Claude'' ''/home/u'',
                   TerminalShow ''Claude'',
                   TerminalSendText ''Claude''
                     (''claude '' @ [CHR 0x22] @ ''$(cat '' @ [CHR 0x27]
                        @ ''/tmp/cq-0f9e8d7c.txt'' @ [CHR 0x27] @ '')'' @ [CHR 0x22]
                        @ '' ; rm -f '' @ [CHR 0x27] @ ''/tmp/cq-0f9e8d7c.txt'' @ [CHR 0x27])
                     True,
                   MementoUpdate [item_a],
                   LogDelivered ''0f9e8d7c'',
                   ShowInformationMessage ''0f9e8d7c'',
                   Fire]\<rparr>)"
  by code_simp

text \<open>
  C1: \<open>process()\<close> is to return the number of items whose delivery succeeded. On the
  concrete tick both items are due; the delivery of the first throws, the second is
  delivered, and the first stays in the store. \<open>process()\<close> returns 2, the number of due
  items, although one item was delivered.
\<close>

theorem process_counts_failed_deliveries:
  "map item_id (due_items env_tick world_ab) = [''a1b2c3d4'', ''0f9e8d7c'']
   \<and> outcomes (trace (snd (process env_tick world_ab)))
        = [(''a1b2c3d4'', False), (''0f9e8d7c'', True)]
   \<and> getAll (snd (process env_tick world_ab)) = [item_a]
   \<and> fst (process env_tick world_ab) = 2"
proof -
  have due: "map item_id (due_items env_tick world_ab) = [''a1b2c3d4'', ''0f9e8d7c'']"
    by code_simp
  show ?thesis
    unfolding process_world_ab by (simp add: due getAll_def outcomes_def)
qed



text \<open>
  C10: \<open>forceDeliver(id)\<close> does nothing when the store holds no pending item with that id,
  be the id absent or its item processed: no delivery is attempted, no event is fired, and
  the store is as it was.
\<close>

theorem forceDeliver_without_pending_item:
  assumes "\<not> (\<exists>i \<in> set (getAll w). item_id i = x \<and> \<not> processed i)"
  shows "forceDeliver e w x = w"
proof -
  have "find (\<lambda>i. item_id i = x \<and> \<not> processed i) (getAll w) = None"
    using assms by (simp add: find_None_iff)
  then show ?thesis by (simp add: forceDeliver_def)
qed

theorem forceDeliver_without_pending_item_witness:
  "\<not> (\<exists>i \<in> set (getAll world_a_done_b). item_id i = ''ffffffff'' \<and> \<not> processed i)
   \<and> forceDeliver env_tick world_a_done_b ''ffffffff'' = world_a_done_b
   \<and> \<not> (\<exists>i \<in> set (getAll world_a_done_b). item_id i = ''0f9e8d7c'' \<and> \<not> processed i)
   \<and> forceDeliver env_tick world_a_done_b ''0f9e8d7c'' = world_a_done_b"
proof -
  have absent:
    "\<not> (\<exists>i \<in> set (getAll world_a_done_b). item_id i = ''ffffffff'' \<and> \<not> processed i)"
    by (simp add: world_a_done_b_def getAll_def item_a_def item_b_def)
  have marked:
    "\<not> (\<exists>i \<in> set (getAll world_a_done_b). item_id i = ''0f9e8d7c'' \<and> \<not> processed i)"
    by (simp add: world_a_done_b_def getAll_def item_a_def item_b_def)
  show ?thesis
    using absent marked
      forceDeliver_without_pending_item[OF absent, of env_tick]
      forceDeliver_without_pending_item[OF marked, of env_tick]
    by simp
qed


section \<open>The parser: numbers and clock times\<close>

lemma isDigit_not_space: "isDigit c \<Longrightarrow> \<not> isSpace c"
  by (auto simp: isDigit_def isSpace_def)

lemma isDigit_not_sign: "isDigit c \<Longrightarrow> c \<noteq> CHR ''-'' \<and> c \<noteq> CHR ''+''"
  by (auto simp: isDigit_def)

text \<open>\<open>parseInt\<close> reads a run of digits as the number it writes, never as NaN.\<close>

lemma parseInt_digits:
  assumes "ds \<noteq> []" "list_all isDigit ds"
  shows "parseInt ds = Some (int (digitsValue ds))"
proof -
  obtain c cs where ds: "ds = c # cs" using assms(1) by (cases ds) auto
  have c: "isDigit c" using assms(2) ds by simp
  have tw: "takeWhile isDigit ds = ds"
    using assms(2) by (simp add: takeWhile_eq_all_conv list_all_iff)
  have dw: "dropWhile isSpace ds = ds"
    using c ds isDigit_not_space by simp
  have neg: "(case ds of [] \<Rightarrow> False | c # cs \<Rightarrow> c = CHR ''-'') = False"
    using isDigit_not_sign[OF c] by (simp add: ds)
  have u: "(case ds of [] \<Rightarrow> [] | c # cs \<Rightarrow> if c = CHR ''-'' \<or> c = CHR ''+'' then cs else ds) = ds"
    using isDigit_not_sign[OF c] by (simp add: ds)
  show ?thesis
    unfolding parseInt_def Let_def dw neg u tw using assms(1) by simp
qed

lemma clock24_digits:
  assumes "hourStr \<noteq> []" "list_all isDigit hourStr"
    and "minuteStr \<noteq> []" "list_all isDigit minuteStr"
  shows "\<exists>h m. clock24 hourStr minuteStr ampm = Some (h, m) \<and> 0 \<le> h \<and> 0 \<le> m"
  using parseInt_digits[OF assms(1,2)] parseInt_digits[OF assms(3,4)]
  by (simp add: clock24_def)

text \<open>
  \<open>parseAbsoluteTime\<close> on a clock time: the instant of today at that time, set to the
  next date when that instant is not after the clock; the text kept is the start of the
  whole input.
\<close>

lemma parseAbsoluteTime_clock24:
  assumes "clock24 hourStr minuteStr ampm = Some (h, m)"
  shows "\<exists>info. parseAbsoluteTime tz nowMs hourStr minuteStr ampm rawText = Some info
           \<and> resetAt info = Some (Instant (nextOccurrence tz nowMs h m))
           \<and> rawMatch info = take 80 rawText"
  using assms
  by (auto simp: clock24_def parseAbsoluteTime_def Let_def isMeridiem_def str_of_def
        setHours_def setDate_next_def todayAt_def todayInstant_def nextOccurrence_def
        toLowerCase_def
        split: option.splits if_splits)



section \<open>The parser: what the groups of the clock patterns hold\<close>

lemma set_matches_Seq:
  "set (matches (Seq a b) s) = (\<Union>s1 \<in> set (matches a s). set (matches b s1))"
  by simp

lemma step_if_caps: "s' \<in> set (step_if P s) \<Longrightarrow> caps s' = caps s"
  by (auto simp: step_if_def split: list.splits if_splits)

lemma iter_keeps:
  assumes "\<And>s s'. s' \<in> set (f s) \<Longrightarrow> map_of (caps s') n = map_of (caps s) n"
  shows "s' \<in> set (iter k f s) \<Longrightarrow> map_of (caps s') n = map_of (caps s) n"
proof (induction k arbitrary: s)
  case 0
  then show ?case by simp
next
  case (Suc k)
  then show ?case using assms by (auto simp del: map_of_eq_Some_iff)
qed

text \<open>A pattern leaves the groups that it does not contain as they are.\<close>

lemma matches_keeps:
  "s' \<in> set (matches r s) \<Longrightarrow> n \<notin> groups_of r \<Longrightarrow> map_of (caps s') n = map_of (caps s) n"
proof (induction r arbitrary: s s')
  case (Star r)
  show ?case
    by (rule iter_keeps[where f = "matches r" and k = "length (rest s)"])
       (use Star in auto)
next
  case (Seq a b)
  then show ?case by (auto simp del: map_of_eq_Some_iff)
qed (auto simp: step_if_caps split: if_splits)

lemma group_one_or_two_digits:
  assumes "s' \<in> set (matches (Group k (Seq Digit (Opt Digit))) s)"
  shows "\<exists>d. map_of (caps s') k = Some d \<and> d \<noteq> [] \<and> list_all isDigit d"
  using assms
  by (cases "rest s"; cases "tl (rest s)")
     (auto simp: step_if_def progress_def split: if_splits)

lemma group_two_digits:
  assumes "s' \<in> set (matches (Group k (Seq Digit Digit)) s)"
  shows "\<exists>d. map_of (caps s') k = Some d \<and> d \<noteq> [] \<and> list_all isDigit d"
  using assms
  by (cases "rest s"; cases "tl (rest s)")
     (auto simp: step_if_def progress_def split: if_splits)

lemma matches_clock:
  assumes "s' \<in> set (matches re_clock s)"
  shows "(\<exists>d. map_of (caps s') 1 = Some d \<and> d \<noteq> [] \<and> list_all isDigit d)
       \<and> (\<exists>d. map_of (caps s') 2 = Some d \<and> d \<noteq> [] \<and> list_all isDigit d)"
proof -
  let ?g1 = "Group 1 (Seq Digit (Opt Digit))"
  let ?g2 = "Group 2 (Seq Digit Digit)"
  let ?t2 = "Seqs [Opt (Seq (Lit CHR '':'') (Group 3 (Seq Digit Digit))),
                   Star Space, Opt (Group 4 (Alt (Str ''am'') (Str ''pm'')))]"
  let ?t1 = "Seq (Lit CHR '':'') (Seq ?g2 ?t2)"
  have "s' \<in> set (matches (Seq ?g1 ?t1) s)"
    using assms by (simp only: re_clock_def Seqs.simps)
  then obtain s1 where s1: "s1 \<in> set (matches ?g1 s)" and a: "s' \<in> set (matches ?t1 s1)"
    unfolding set_matches_Seq by blast
  from a obtain s2 where "s2 \<in> set (matches (Lit CHR '':'') s1)"
    and b: "s' \<in> set (matches (Seq ?g2 ?t2) s2)"
    unfolding set_matches_Seq by blast
  from b obtain s3 where s3: "s3 \<in> set (matches ?g2 s2)" and c: "s' \<in> set (matches ?t2 s3)"
    unfolding set_matches_Seq by blast
  have k1: "map_of (caps s') 1 = map_of (caps s1) 1"
    by (rule matches_keeps[OF a]) simp
  have k2: "map_of (caps s') 2 = map_of (caps s3) 2"
    by (rule matches_keeps[OF c]) simp
  show ?thesis
    using group_one_or_two_digits[OF s1] group_two_digits[OF s3] k1 k2 by simp
qed

lemma matches_Seqs_last:
  "s' \<in> set (matches (Seqs (rs @ [r])) s) \<Longrightarrow> \<exists>s1. s' \<in> set (matches r s1)"
  by (induction rs arbitrary: s) auto

lemma scan_match_here:
  "scan r p s = Some m \<Longrightarrow> \<exists>p' s'. match_here r p' s' = Some m"
  by (induction s arbitrary: p) (auto split: option.splits)

lemma match_here_matches:
  "match_here r p s = Some m \<Longrightarrow>
     \<exists>s'. s' \<in> set (matches r \<lparr>prev = p, rest = s, caps = []\<rparr>) \<and> groups m = caps s'"
  by (auto simp: match_here_def split: list.splits)

lemma match_clock_groups:
  assumes "match text (Seqs (rs @ [re_clock])) = Some m"
  shows "\<exists>d1 d2. grp m 1 = Some d1 \<and> d1 \<noteq> [] \<and> list_all isDigit d1
               \<and> grp m 2 = Some d2 \<and> d2 \<noteq> [] \<and> list_all isDigit d2"
proof -
  obtain p s where "match_here (Seqs (rs @ [re_clock])) p s = Some m"
    using assms scan_match_here unfolding match_def by blast
  then obtain s' where
    s': "s' \<in> set (matches (Seqs (rs @ [re_clock])) \<lparr>prev = p, rest = s, caps = []\<rparr>)"
    and g: "groups m = caps s'"
    using match_here_matches by blast
  obtain s1 where "s' \<in> set (matches re_clock s1)"
    using matches_Seqs_last[OF s'] by blast
  then show ?thesis using matches_clock[of s' s1] by (auto simp: grp_def g)
qed

lemma re_absReset_shape: "\<exists>rs. re_absReset = Seqs (rs @ [re_clock])"
  unfolding re_absReset_def
  by (rule exI[where x = "[Alt (Seq (Str ''reset'') (Opt (Lit CHR ''s'')))
            (Alt (Str ''available'')
              (Alt (Seqs [Str ''try'', Plus Space, Str ''again'']) (Str ''retry''))),
           Plus Space, Str ''at'', Plus Space]"]) simp

lemma re_atTime_shape: "\<exists>rs. re_atTime = Seqs (rs @ [re_clock])"
  unfolding re_atTime_def
  by (rule exI[where x = "[WordBoundary, Str ''at'', Plus Space]"]) simp

text \<open>
  Where one of the two clock patterns matches, \<open>parseAbsoluteTime\<close> returns a result for
  the groups of the match.
\<close>

lemma absoluteCase_match:
  assumes "match text r = Some mt" and "\<exists>rs. r = Seqs (rs @ [re_clock])"
  shows "\<exists>info h m.
           absoluteCase tz nowMs text r = Some info
           \<and> clock24 (str_of (grp mt 1)) (str_of (grp mt 2)) (grp mt 4) = Some (h, m)
           \<and> 0 \<le> h \<and> 0 \<le> m
           \<and> resetAt info = Some (Instant (nextOccurrence tz nowMs h m))
           \<and> rawMatch info = take 80 text"
proof -
  obtain rs where r: "r = Seqs (rs @ [re_clock])" using assms(2) by blast
  obtain d1 d2 where d1: "grp mt 1 = Some d1" "d1 \<noteq> []" "list_all isDigit d1"
    and d2: "grp mt 2 = Some d2" "d2 \<noteq> []" "list_all isDigit d2"
    using match_clock_groups[OF assms(1)[unfolded r]] by blast
  obtain h m where c: "clock24 d1 d2 (grp mt 4) = Some (h, m)" and hm: "0 \<le> h" "0 \<le> m"
    using clock24_digits[OF d1(2,3) d2(2,3)] by blast
  obtain info where p: "parseAbsoluteTime tz nowMs d1 d2 (grp mt 4) text = Some info"
    and ra: "resetAt info = Some (Instant (nextOccurrence tz nowMs h m))"
    and rm: "rawMatch info = take 80 text"
    using parseAbsoluteTime_clock24[OF c] by blast
  have s1: "str_of (grp mt 1) = d1" and s2: "str_of (grp mt 2) = d2"
    by (simp_all only: d1(1) d2(1) str_of_def option.case)
  have a: "absoluteCase tz nowMs text r = Some info"
    by (simp only: absoluteCase_def assms(1) option.case s1 s2 p)
  have c': "clock24 (str_of (grp mt 1)) (str_of (grp mt 2)) (grp mt 4) = Some (h, m)"
    by (simp only: s1 s2 c)
  show ?thesis
    by (intro exI[of _ info] exI[of _ h] exI[of _ m] conjI a c' hm ra rm)
qed

lemma absoluteCase_no_match: "match text r = None \<Longrightarrow> absoluteCase tz nowMs text r = None"
  by (simp add: absoluteCase_def)

text \<open>The result of the parser where one of the two clock patterns matches.\<close>

lemma parse_clockMatch:
  assumes "clockMatch text = Some mt"
  shows "\<exists>info h m.
           parseRateLimitMessage tz nowMs text = Some info
           \<and> clock24 (str_of (grp mt 1)) (str_of (grp mt 2)) (grp mt 4) = Some (h, m)
           \<and> 0 \<le> h \<and> 0 \<le> m
           \<and> resetAt info = Some (Instant (nextOccurrence tz nowMs h m))
           \<and> rawMatch info = take 80 text"
proof (cases "match text re_absReset")
  case (Some m1)
  then have mt: "mt = m1" using assms by (simp add: clockMatch_def)
  obtain info h m where i: "absoluteCase tz nowMs text re_absReset = Some info"
    and rest: "clock24 (str_of (grp mt 1)) (str_of (grp mt 2)) (grp mt 4) = Some (h, m)"
      "0 \<le> h" "0 \<le> m"
      "resetAt info = Some (Instant (nextOccurrence tz nowMs h m))"
      "rawMatch info = take 80 text"
    using absoluteCase_match[OF Some re_absReset_shape, of tz nowMs] unfolding mt by blast
  have p: "parseRateLimitMessage tz nowMs text = Some info"
    by (simp add: parseRateLimitMessage_def i)
  show ?thesis
    by (intro exI[of _ info] exI[of _ h] exI[of _ m] conjI p rest)
next
  case None
  then have m2: "match text re_atTime = Some mt" using assms by (simp add: clockMatch_def)
  obtain info h m where i: "absoluteCase tz nowMs text re_atTime = Some info"
    and rest: "clock24 (str_of (grp mt 1)) (str_of (grp mt 2)) (grp mt 4) = Some (h, m)"
      "0 \<le> h" "0 \<le> m"
      "resetAt info = Some (Instant (nextOccurrence tz nowMs h m))"
      "rawMatch info = take 80 text"
    using absoluteCase_match[OF m2 re_atTime_shape, of tz nowMs] by blast
  have p: "parseRateLimitMessage tz nowMs text = Some (info\<lparr>confidence := Medium\<rparr>)"
    by (simp add: parseRateLimitMessage_def absoluteCase_no_match[OF None] i)
  have ra: "resetAt (info\<lparr>confidence := Medium\<rparr>) = Some (Instant (nextOccurrence tz nowMs h m))"
    and rm: "rawMatch (info\<lparr>confidence := Medium\<rparr>) = take 80 text"
    using rest by simp_all
  show ?thesis
    by (intro exI[of _ "info\<lparr>confidence := Medium\<rparr>"] exI[of _ h] exI[of _ m] conjI
          p rest(1-3) ra rm)
qed

text \<open>
  Where neither clock pattern matches, the text that the parser keeps is what the winning
  one of the five relative patterns matched.
\<close>

lemma rawMatch_relativeInfo: "rawMatch (relativeInfo nowMs t raw conf) = raw"
  by (simp add: relativeInfo_def Let_def)

lemma relative_rawMatch:
  assumes "clockMatch text = None" and "parseRateLimitMessage tz nowMs text = Some info"
  shows "\<exists>r m. r \<in> set [re_combined, re_hoursOnly, re_bareHours, re_minutesOnly, re_secondsOnly]
           \<and> match text r = Some m \<and> rawMatch info = matched m"
proof -
  have n1: "match text re_absReset = None" and n2: "match text re_atTime = None"
    using assms(1) by (auto simp: clockMatch_def split: option.splits)
  show ?thesis
    using assms(2)
    by (auto simp: parseRateLimitMessage_def absoluteCase_def n1 n2 Let_def rawMatch_relativeInfo
          split: option.splits)
qed


section \<open>The parser: results on texts and on clock times\<close>

lemma clockMatch_reset_230pm:
  "clockMatch ''Your limit will reset at 2:30 PM''
     = Some \<lparr>matched = ''reset at 2:30 PM'', groups = [(4, ''PM''), (2, ''30''), (1, ''2'')]\<rparr>"
  by code_simp

lemma clockMatch_at_1400:
  "clockMatch ''Come back at 14:00''
     = Some \<lparr>matched = ''at 14:00'', groups = [(2, ''00''), (1, ''14'')]\<rparr>"
  by code_simp

lemma clockMatch_long:
  "clockMatch long_text
     = Some \<lparr>matched = ''resets at 3:00 pm'', groups = [(4, ''pm''), (2, ''00''), (1, ''3'')]\<rparr>"
  by code_simp

text \<open>
  C2: \<open>rawMatch\<close> is to be the part of the text that the winning pattern matched. In the
  two cases with a clock time it is the first 80 code units of the whole text instead:
  the whole text \<open>Your limit will reset at 2:30 PM\<close> where the first pattern matched
  \<open>reset at 2:30 PM\<close>, the whole text \<open>Come back at 14:00\<close> where the second pattern matched
  \<open>at 14:00\<close>, and the first 80 code units of the long text, which end before the match
  \<open>resets at 3:00 pm\<close> begins.
\<close>

theorem rawMatch_of_clock_cases_is_text_start:
  "map_option rawMatch (parseRateLimitMessage tz nowMs ''Your limit will reset at 2:30 PM'')
     = Some ''Your limit will reset at 2:30 PM''
   \<and> map_option matched (clockMatch ''Your limit will reset at 2:30 PM'')
     = Some ''reset at 2:30 PM''
   \<and> map_option rawMatch (parseRateLimitMessage tz nowMs ''Come back at 14:00'')
     = Some ''Come back at 14:00''
   \<and> map_option matched (clockMatch ''Come back at 14:00'') = Some ''at 14:00''
   \<and> map_option rawMatch (parseRateLimitMessage tz nowMs long_text)
     = Some ''You have reached the usage limit for this billing period on the current plan; yo''
   \<and> map_option matched (clockMatch long_text) = Some ''resets at 3:00 pm''"
proof -
  obtain i1 where "parseRateLimitMessage tz nowMs ''Your limit will reset at 2:30 PM'' = Some i1"
    and "rawMatch i1 = take 80 ''Your limit will reset at 2:30 PM''"
    using parse_clockMatch[OF clockMatch_reset_230pm, of tz nowMs] by blast
  moreover obtain i2 where "parseRateLimitMessage tz nowMs ''Come back at 14:00'' = Some i2"
    and "rawMatch i2 = take 80 ''Come back at 14:00''"
    using parse_clockMatch[OF clockMatch_at_1400, of tz nowMs] by blast
  moreover obtain i3 where "parseRateLimitMessage tz nowMs long_text = Some i3"
    and "rawMatch i3 = take 80 long_text"
    using parse_clockMatch[OF clockMatch_long, of tz nowMs] by blast
  moreover have
    "take 80 long_text
       = ''You have reached the usage limit for this billing period on the current plan; yo''"
    by (simp add: long_text_def)
  ultimately show ?thesis
    by (simp add: clockMatch_reset_230pm clockMatch_at_1400 clockMatch_long)
qed

lemma parse_for_5_hours:
  "parseRateLimitMessage tz nowMs ''rate limited for 5 hours''
     = Some \<lparr>delayHours = Num (51 / 10), resetAt = Some (Instant (nowMs + 18360000)),
             rawMatch = ''for 5 hours'', confidence = High\<rparr>"
  apply code_simp
  apply simp
  done

lemma matches_for_5_hours:
  "clockMatch ''rate limited for 5 hours'' = None
   \<and> match ''rate limited for 5 hours'' re_combined = None
   \<and> match ''rate limited for 5 hours'' re_hoursOnly
       = Some \<lparr>matched = ''for 5 hours'', groups = [(1, ''5'')]\<rparr>
   \<and> match ''rate limited for 5 hours'' re_bareHours
       = Some \<lparr>matched = ''5 hours'', groups = [(1, ''5'')]\<rparr>"
  by code_simp

text \<open>
  C3: the text \<open>rate limited for 5 hours\<close> is to be matched by the pattern for bare hours,
  with confidence \<open>medium\<close>. The pattern for hours after a preposition comes first in the
  cascade and matches \<open>for 5 hours\<close>, so the parser returns that match with confidence
  \<open>high\<close>; the pattern for bare hours, which would match \<open>5 hours\<close>, is not reached.
\<close>

theorem for_hours_is_high_confidence:
  "map_option confidence (parseRateLimitMessage tz nowMs ''rate limited for 5 hours'') = Some High
   \<and> map_option rawMatch (parseRateLimitMessage tz nowMs ''rate limited for 5 hours'')
       = Some ''for 5 hours''
   \<and> map_option matched (match ''rate limited for 5 hours'' re_hoursOnly) = Some ''for 5 hours''
   \<and> map_option matched (match ''rate limited for 5 hours'' re_bareHours) = Some ''5 hours''"
  by (simp add: parse_for_5_hours matches_for_5_hours)

lemma parse_4h_30m:
  "parseRateLimitMessage tz nowMs ''Rate limit exceeded. Try again in 4h 30m.''
     = Some \<lparr>delayHours = Num (23 / 5), resetAt = Some (Instant (nowMs + 16560000)),
             rawMatch = ''4h 30m'', confidence = High\<rparr>"
  apply code_simp
  apply simp
  done

text \<open>
  C4: for the text \<open>Rate limit exceeded. Try again in 4h 30m.\<close> the parser returns a delay
  above 4.5 and at most 5 hours, namely 4.6, with confidence \<open>high\<close>, whatever the clock.
\<close>

theorem try_again_in_4h_30m:
  "\<exists>info d. parseRateLimitMessage tz nowMs ''Rate limit exceeded. Try again in 4h 30m.'' = Some info
      \<and> delayHours info = Num d \<and> 9 / 2 < d \<and> d \<le> 5 \<and> d = 23 / 5
      \<and> confidence info = High"
  by (intro exI[of _ "\<lparr>delayHours = Num (23 / 5), resetAt = Some (Instant (nowMs + 16560000)),
                        rawMatch = ''4h 30m'', confidence = High\<rparr>"]
            exI[of _ "23 / 5"])
     (simp add: parse_4h_30m)

lemma clockMatch_resets_230am:
  "clockMatch ''Your limit resets at 2:30 AM''
     = Some \<lparr>matched = ''resets at 2:30 AM'', groups = [(4, ''AM''), (2, ''30''), (1, ''2'')]\<rparr>"
  by code_simp





text \<open>
  C7: \<open>parseRateLimitDelay(text)\<close> is \<open>parseRateLimitMessage(text)?.delayHours\<close> at the same
  clock: undefined exactly when the parser returns undefined, and else the field
  \<open>delayHours\<close> of what the parser returns.
\<close>

theorem parseRateLimitDelay_is_wrapper:
  "parseRateLimitDelay tz nowMs text
     = (case parseRateLimitMessage tz nowMs text of
          None \<Rightarrow> None
        | Some info \<Rightarrow> Some (delayHours info))
   \<and> (parseRateLimitDelay tz nowMs text = None \<longleftrightarrow> parseRateLimitMessage tz nowMs text = None)"
  by (simp add: parseRateLimitDelay_def split: option.splits)


end
